theory Spec2Isabelle
  imports Main "HOL-Library.Char_ord" "HOL-Library.List_Lexorder" "HOL-Library.Product_Lexorder"
begin

section \<open>Strings\<close>

text \<open>
  Python's \<open>str\<close> values are modelled as \<open>string\<close>: a character outside ASCII is
  the sequence of its UTF-8 bytes.  Substring search on such sequences agrees with Python's
  search on code points, because UTF-8 is self-synchronising.
\<close>

definition startswith :: "string \<Rightarrow> string \<Rightarrow> bool" where
  \<comment> \<open>\<open>s.startswith(p)\<close>\<close>
  "startswith s p = (take (length p) s = p)"

definition endswith :: "string \<Rightarrow> string \<Rightarrow> bool" where
  \<comment> \<open>\<open>s.endswith(p)\<close>\<close>
  "endswith s p = (length p \<le> length s \<and> drop (length s - length p) s = p)"

fun str_contains :: "string \<Rightarrow> string \<Rightarrow> bool" where
  \<comment> \<open>\<open>p in s\<close>, also \<open>re.search(p, s)\<close> for a pattern \<open>p\<close> without metacharacters\<close>
  "str_contains p [] = (p = [])"
| "str_contains p (c # s) = (startswith (c # s) p \<or> str_contains p s)"

definition lower_char :: "char \<Rightarrow> char" where
  \<comment> \<open>case folding of the ASCII letters\<close>
  "lower_char c = (if CHR ''A'' \<le> c \<and> c \<le> CHR ''Z'' then char_of (of_char c + (32::nat)) else c)"

definition str_lower :: "string \<Rightarrow> string" where
  "str_lower s = map lower_char s"

definition str_icontains :: "string \<Rightarrow> string \<Rightarrow> bool" where
  \<comment> \<open>\<open>re.search(p, s, re.IGNORECASE)\<close> for a lower-case ASCII word \<open>p\<close>\<close>
  "str_icontains p s = str_contains p (str_lower s)"

section \<open>Logging\<close>

text \<open>
  The functions of \<open>implementation/utils.py\<close> write to a process-wide logger.  A log
  record is modelled by its level, the key of the prefix table it was built with, and the
  formatted message; every function returns the records it emitted, in order.  Records of
  level \<open>DEBUG\<close> only print the rendering of a tag or a cookie; they are left out.
\<close>

datatype level = INFO | WARNING | ERROR

datatype log_record = Log level string string

section \<open>SampleZipper\<close>

type_synonym block = "string \<times> string"

record SampleZipper =
  data :: "(block \<times> block) list"
  dangling :: "block option"

definition SampleZipper_init :: SampleZipper where
  "SampleZipper_init = \<lparr> data = [], dangling = None \<rparr>"

definition output_like :: "string \<Rightarrow> bool" where
  \<comment> \<open>\<open>re.search('output', name, re.IGNORECASE) or re.search(<shutsuryoku>, name)\<close>;
      the second pattern is the two characters U+51FA U+529B\<close>
  "output_like name = (str_icontains ''output'' name \<or>
     str_contains [CHR 0xE5, CHR 0x87, CHR 0xBA, CHR 0xE5, CHR 0x8A, CHR 0x9B] name)"

definition input_like :: "string \<Rightarrow> bool" where
  \<comment> \<open>\<open>re.search('input', name, re.IGNORECASE) or re.search(<nyuryoku>, name)\<close>;
      the second pattern is the two characters U+5165 U+529B\<close>
  "input_like name = (str_icontains ''input'' name \<or>
     str_contains [CHR 0xE5, CHR 0x85, CHR 0xA5, CHR 0xE5, CHR 0x8A, CHR 0x9B] name)"

definition SampleZipper_add :: "SampleZipper \<Rightarrow> string \<Rightarrow> string \<Rightarrow> SampleZipper \<times> log_record list" where
  "SampleZipper_add z s name =
     (case dangling z of
        None \<Rightarrow>
          (z\<lparr> dangling := Some (s, name) \<rparr>,
           if output_like name
           then [Log WARNING ''warning'' (''strange name for input string: '' @ name)] else [])
      | Some d \<Rightarrow>
          (z\<lparr> data := data z @ [(d, (s, name))], dangling := None \<rparr>,
           if input_like name
           then [Log WARNING ''warning'' (''strange name for output string: '' @ name)] else []))"

definition SampleZipper_get :: "SampleZipper \<Rightarrow> (block \<times> block) list \<times> log_record list" where
  "SampleZipper_get z =
     (data z,
      case dangling z of
        None \<Rightarrow> []
      | Some d \<Rightarrow> [Log ERROR ''error'' (''dangling sample string: '' @ snd d)])"

fun SampleZipper_feed :: "SampleZipper \<Rightarrow> block list \<Rightarrow> SampleZipper \<times> log_record list" where
  \<comment> \<open>the callers' loop: \<open>for ...: samples.add(s, name)\<close>\<close>
  "SampleZipper_feed z [] = (z, [])"
| "SampleZipper_feed z ((s, name) # bs) =
     (let (z1, l1) = SampleZipper_add z s name;
          (z2, l2) = SampleZipper_feed z1 bs
      in (z2, l1 @ l2))"

definition zip_samples :: "block list \<Rightarrow> (block \<times> block) list \<times> log_record list" where
  \<comment> \<open>a fresh zipper, every block added in order, then \<open>get()\<close>\<close>
  "zip_samples bs =
     (let (z, l1) = SampleZipper_feed SampleZipper_init bs;
          (r, l2) = SampleZipper_get z
      in (r, l1 @ l2))"

fun pairs_of :: "'a list \<Rightarrow> ('a \<times> 'a) list" where
  "pairs_of (x # y # r) = (x, y) # pairs_of r"
| "pairs_of _ = []"


section \<open>Errors\<close>

text \<open>Every exception the modelled code can raise is a value; a fallible function returns
  \<open>error + 'a\<close>, with \<open>Inl\<close> for a raised exception.\<close>

datatype error =
    AssertionError
  | KeyError
  | ValueError
  | AttributeError
  | UnicodeDecodeError
  | OSError
  | LoadError
  | HTTPError
  | ConnectionError
  | SubmissionError
  | NotImplementedError
  | BodyError string

section \<open>Decimal numerals\<close>

function str_of_nat :: "nat \<Rightarrow> string" where
  \<comment> \<open>\<open>'{}'.format(n)\<close> for an \<open>int\<close> \<open>n \<ge> 0\<close>\<close>
  "str_of_nat n =
     (if n < 10 then [char_of (48 + n)]
      else str_of_nat (n div 10) @ [char_of (48 + n mod 10)])"
  by pat_completeness auto
termination
  by (relation "measure id") auto

declare str_of_nat.simps [simp del]

definition is_digit :: "char \<Rightarrow> bool" where
  \<comment> \<open>the class \<open>[0-9]\<close>\<close>
  "is_digit c = (CHR ''0'' \<le> c \<and> c \<le> CHR ''9'')"

definition digit_val :: "char \<Rightarrow> nat" where
  "digit_val c = of_char c - 48"

definition nat_of_digits :: "string \<Rightarrow> nat" where
  \<comment> \<open>\<open>int(s)\<close> for a non-empty string of ASCII digits\<close>
  "nat_of_digits s = foldl (\<lambda>a c. 10 * a + digit_val c) 0 s"

section \<open>download\<close>

record response =
  status_code :: nat
  url :: string
  content :: string
  cookies :: "(string \<times> string) list"

definition describe_status_code :: "(nat \<rightharpoonup> string) \<Rightarrow> nat \<Rightarrow> error + string" where
  \<comment> \<open>\<open>responses\<close> is the table \<open>http.client.responses\<close>; a code it does not list raises
      \<open>KeyError\<close>\<close>
  "describe_status_code responses code =
     (case responses code of
        None \<Rightarrow> Inl KeyError
      | Some d \<Rightarrow> Inr (str_of_nat code @ '' '' @ d))"

definition download ::
  "(nat \<rightharpoonup> string) \<Rightarrow> ('s \<Rightarrow> string \<Rightarrow> error + response) \<Rightarrow> 's \<Rightarrow> string \<Rightarrow> 's option
     \<Rightarrow> (error + string) \<times> log_record list" where
  \<comment> \<open>\<open>get\<close> is \<open>requests.Session.get\<close>: the answer of the network to a GET of this
      session, or the exception it raises; \<open>new_session\<close> is \<open>requests.Session()\<close>\<close>
  "download responses get new_session u session =
     (let l0 = [Log INFO ''status'' (''GET: '' @ u)];
          s = (case session of None \<Rightarrow> new_session | Some s \<Rightarrow> s)
      in case get s u of
           Inl e \<Rightarrow> (Inl e, l0)
         | Inr resp \<Rightarrow>
             if status_code resp \<noteq> 200 then
               (case describe_status_code responses (status_code resp) of
                  Inl e \<Rightarrow> (Inl e, l0)
                | Inr d \<Rightarrow> (Inl HTTPError, l0 @ [Log ERROR ''error'' d]))
             else
               (case describe_status_code responses (status_code resp) of
                  Inl e \<Rightarrow> (Inl e, l0)
                | Inr d \<Rightarrow> (Inr (content resp), l0 @ [Log INFO ''success'' d])))"

section \<open>FormSender\<close>

text \<open>
  A parsed document is a tree of tags and strings.  A tag has a name, a dictionary of
  attributes and its children in document order.
\<close>

datatype node =
    Tag string "string \<rightharpoonup> string" "node list"
  | NavigableString string

fun descendants :: "node \<Rightarrow> node list" where
  \<comment> \<open>the nodes below a tag, in document order\<close>
  "descendants (Tag n a cs) = concat (map (\<lambda>c. c # descendants c) cs)"
| "descendants (NavigableString s) = []"

fun is_tag_named :: "string \<Rightarrow> node \<Rightarrow> bool" where
  "is_tag_named nm (Tag n a cs) = (n = nm)"
| "is_tag_named nm (NavigableString s) = False"

definition find_all :: "string \<Rightarrow> node \<Rightarrow> node list" where
  \<comment> \<open>\<open>tag.find_all(name)\<close>\<close>
  "find_all nm t = filter (is_tag_named nm) (descendants t)"

fun attr :: "node \<Rightarrow> string \<Rightarrow> error + string" where
  \<comment> \<open>\<open>tag[key]\<close>\<close>
  "attr (Tag n a cs) k = (case a k of None \<Rightarrow> Inl KeyError | Some v \<Rightarrow> Inr v)"
| "attr (NavigableString s) k = Inl KeyError"

record FormSender =
  form :: node
  page_url :: string
  payload :: "string \<rightharpoonup> string"

definition add_input :: "(string \<rightharpoonup> string) \<Rightarrow> node \<Rightarrow> (string \<rightharpoonup> string)" where
  \<comment> \<open>the body of the loop of \<open>__init__\<close>: a \<open>KeyError\<close> is caught and the input skipped\<close>
  "add_input p i =
     (case attr i ''name'' of
        Inl e \<Rightarrow> p
      | Inr nm \<Rightarrow>
          if nm \<noteq> [] then
            (case attr i ''value'' of
               Inl e \<Rightarrow> p
             | Inr v \<Rightarrow> if v \<noteq> [] then p(nm \<mapsto> v) else p)
          else p)"

definition FormSender_init :: "node \<Rightarrow> string \<Rightarrow> error + FormSender" where
  "FormSender_init f u =
     (if \<not> is_tag_named ''form'' f then Inl AssertionError
      else Inr \<lparr> form = f, page_url = u,
                 payload = foldl add_input Map.empty (find_all ''input'' f) \<rparr>)"

definition FormSender_set :: "FormSender \<Rightarrow> string \<Rightarrow> string \<Rightarrow> FormSender" where
  "FormSender_set fs k v = fs\<lparr> payload := (payload fs)(k \<mapsto> v) \<rparr>"

definition FormSender_get :: "FormSender \<Rightarrow> (string \<rightharpoonup> string)" where
  "FormSender_get fs = payload fs"

definition prefilled :: "node \<Rightarrow> string \<Rightarrow> string \<Rightarrow> bool" where
  \<comment> \<open>the input has the non-empty name \<open>k\<close> and the non-empty value \<open>v\<close>\<close>
  "prefilled i k v = (attr i ''name'' = Inr k \<and> attr i ''value'' = Inr v \<and> k \<noteq> [] \<and> v \<noteq> [])"

fun level_of :: "log_record \<Rightarrow> level" where
  "level_of (Log lv k m) = lv"

section \<open>URLs\<close>

text \<open>
  \<open>urllib.parse.urlparse\<close>, the builtin \<open>int\<close> and \<open>utils.normpath\<close> (which is not among
  the source files) are functions of the environment: the recognisers take them as the
  fields of a \<open>library\<close>.  \<open>int_of_str\<close> is \<open>None\<close> where \<open>int\<close> raises \<open>ValueError\<close>.
  The result of \<open>urlparse\<close> has the six components and the derived \<open>hostname\<close>.
\<close>

record ParseResult =
  scheme :: string
  netloc :: string
  path :: string
  params :: string
  query :: string
  fragment :: string
  hostname :: "string option"

record library =
  urlparse :: "string \<Rightarrow> error + ParseResult"
  normpath :: "string \<Rightarrow> string"
  int_of_str :: "string \<Rightarrow> int option"

definition str_count :: "char \<Rightarrow> string \<Rightarrow> nat" where
  \<comment> \<open>\<open>s.count(c)\<close>\<close>
  "str_count c s = length (filter (\<lambda>d. d = c) s)"

definition first_component :: "string \<Rightarrow> string" where
  \<comment> \<open>\<open>s.split('.')[0]\<close>\<close>
  "first_component s = takeWhile (\<lambda>c. c \<noteq> CHR ''.'') s"

definition after_last_slash :: "string \<Rightarrow> string" where
  \<comment> \<open>\<open>p[p.rfind('/') + 1:]\<close>\<close>
  "after_last_slash p = rev (takeWhile (\<lambda>c. c \<noteq> CHR ''/'') (rev p))"

definition rstrip_slash :: "string \<Rightarrow> string" where
  \<comment> \<open>\<open>s.rstrip('/')\<close>\<close>
  "rstrip_slash s = rev (dropWhile (\<lambda>c. c = CHR ''/'') (rev s))"

definition posixpath_split :: "string \<Rightarrow> string \<times> string" where
  "posixpath_split p =
     (let tail = after_last_slash p;
          head = take (length p - length tail) p
      in (if head \<noteq> [] \<and> head \<noteq> replicate (length head) CHR ''/'' then rstrip_slash head else head,
          tail))"

definition in_schemes :: "string \<Rightarrow> bool" where
  \<comment> \<open>\<open>scheme in ('', 'http', 'https')\<close>\<close>
  "in_schemes s = (s = [] \<or> s = ''http'' \<or> s = ''https'')"

fun strip_prefix :: "string \<Rightarrow> string \<Rightarrow> string option" where
  \<comment> \<open>the rest of the string after a literal prefix\<close>
  "strip_prefix [] s = Some s"
| "strip_prefix (c # p) [] = None"
| "strip_prefix (c # p) (d # s) = (if c = d then strip_prefix p s else None)"

definition is_alpha :: "char \<Rightarrow> bool" where
  "is_alpha c = ((CHR ''a'' \<le> c \<and> c \<le> CHR ''z'') \<or> (CHR ''A'' \<le> c \<and> c \<le> CHR ''Z''))"

definition id_char :: "char \<Rightarrow> bool" where
  \<comment> \<open>the class \<open>[\w\-_]\<close> on ASCII: letters, digits, underscore and hyphen.  The
      characters outside ASCII that \<open>\w\<close> also accepts are not modelled.\<close>
  "id_char c = (is_alpha c \<or> is_digit c \<or> c = CHR ''_'' \<or> c = CHR ''-'')"

definition at_end :: "string \<Rightarrow> bool" where
  \<comment> \<open>the anchor \<open>$\<close>: the end of the string, or just before a final newline\<close>
  "at_end s = (s = [] \<or> s = [CHR 0x0A])"

definition match_contests :: "string \<Rightarrow> (char \<Rightarrow> bool) \<Rightarrow> string \<Rightarrow> (string \<times> string) option" where
  \<comment> \<open>\<open>re.match('^/contests/([\w\-_]+)' + mid + '(C+)$', p)\<close> for a literal \<open>mid\<close> that starts
      with a slash and a class \<open>C\<close> without newline; the two groups\<close>
  "match_contests mid cls p =
     (case strip_prefix ''/contests/'' p of
        None \<Rightarrow> None
      | Some r \<Rightarrow>
          if takeWhile id_char r = [] then None
          else (case strip_prefix mid (dropWhile id_char r) of
                  None \<Rightarrow> None
                | Some r2 \<Rightarrow>
                    if takeWhile cls r2 \<noteq> [] \<and> at_end (dropWhile cls r2)
                    then Some (takeWhile id_char r, takeWhile cls r2) else None))"

section \<open>AtCoder: problems and submissions\<close>

record AtCoderProblem =
  contest_id :: string
  problem_id :: string
  task_id :: "nat option"
  task_name :: "string option"
  time_limit_msec :: "nat option"
  memory_limit_mb :: "nat option"
  alphabet :: "string option"

definition AtCoderProblem_init :: "string \<Rightarrow> string \<Rightarrow> AtCoderProblem" where
  "AtCoderProblem_init c p =
     \<lparr> contest_id = c, problem_id = p, task_id = None, task_name = None,
       time_limit_msec = None, memory_limit_mb = None, alphabet = None \<rparr>"

definition AtCoderProblem_get_url :: "AtCoderProblem \<Rightarrow> string" where
  "AtCoderProblem_get_url self =
     ''http://'' @ contest_id self @ ''.contest.atcoder.jp/tasks/'' @ problem_id self"

definition AtCoderProblem_from_url :: "library \<Rightarrow> string \<Rightarrow> error + AtCoderProblem option" where
  "AtCoderProblem_from_url lib s =
     (case urlparse lib s of
        Inl e \<Rightarrow> Inl e
      | Inr result \<Rightarrow>
          (let (dirname, basename) = posixpath_split (normpath lib (path result)) in
           if in_schemes (scheme result)
              \<and> str_count CHR ''.'' (netloc result) = 3
              \<and> endswith (netloc result) ''.contest.atcoder.jp''
              \<and> first_component (netloc result) \<noteq> []
              \<and> dirname = ''/tasks''
              \<and> basename \<noteq> []
           then Inr (Some (AtCoderProblem_init (first_component (netloc result)) basename))
           else
             (case match_contests ''/tasks/'' id_char (normpath lib (path result)) of
                None \<Rightarrow> Inr None
              | Some (c, p) \<Rightarrow>
                  if in_schemes (scheme result)
                     \<and> (netloc result = ''atcoder.jp'' \<or> netloc result = ''beta.atcoder.jp'')
                  then Inr (Some (AtCoderProblem_init c p))
                  else Inr None)))"

record AtCoderSubmission =
  sub_contest_id :: string
  submission_id :: int
  sub_problem_id :: "string option"

definition AtCoderSubmission_get_url :: "(int \<Rightarrow> string) \<Rightarrow> AtCoderSubmission \<Rightarrow> string" where
  \<comment> \<open>\<open>fmt\<close> is the decimal formatting of an \<open>int\<close> by \<open>str.format\<close>\<close>
  "AtCoderSubmission_get_url fmt self =
     ''http://'' @ sub_contest_id self @ ''.contest.atcoder.jp/submissions/'' @ fmt (submission_id self)"

definition str_eq_tuple :: "string \<Rightarrow> string \<times> string \<Rightarrow> bool" where
  \<comment> \<open>\<open>s == (a, b)\<close> for a \<open>str\<close> \<open>s\<close>: a string is never equal to a tuple\<close>
  "str_eq_tuple s t = False"

definition AtCoderSubmission_from_url ::
  "library \<Rightarrow> string \<Rightarrow> string option \<Rightarrow> error + AtCoderSubmission option" where
  "AtCoderSubmission_from_url lib s pid =
     (case urlparse lib s of
        Inl e \<Rightarrow> Inl e
      | Inr result \<Rightarrow>
          (let (dirname, basename) = posixpath_split (normpath lib (path result));
               first =
                 (if in_schemes (scheme result)
                     \<and> str_count CHR ''.'' (netloc result) = 3
                     \<and> endswith (netloc result) ''.contest.atcoder.jp''
                     \<and> first_component (netloc result) \<noteq> []
                     \<and> dirname = ''/submissions''
                  then (case int_of_str lib basename of
                          None \<Rightarrow> None
                        | Some n \<Rightarrow>
                            Some \<lparr> sub_contest_id = first_component (netloc result),
                                   submission_id = n, sub_problem_id = pid \<rparr>)
                  else None)
           in case first of
                Some sub \<Rightarrow> Inr (Some sub)
              | None \<Rightarrow>
                  (case match_contests ''/submissions/'' is_digit (normpath lib (path result)) of
                     None \<Rightarrow> Inr None
                   | Some (c, d) \<Rightarrow>
                       if in_schemes (scheme result)
                          \<and> str_eq_tuple (netloc result) (''atcoder.jp'', ''beta.atcoder.jp'')
                       then (case int_of_str lib d of
                               None \<Rightarrow> Inr None
                             | Some n \<Rightarrow>
                                 Inr (Some \<lparr> sub_contest_id = c, submission_id = n,
                                              sub_problem_id = pid \<rparr>))
                       else Inr None)))"

section \<open>The standard library, for evaluation\<close>

text \<open>
  A model of the library functions on ASCII input, after the sources of CPython 3.11
  (\<open>urllib/parse.py\<close>, \<open>posixpath.py\<close>).  It instantiates the \<open>library\<close> where a
  recogniser is evaluated on a concrete URL; the general theorems hold for every library.
  Not modelled: the NFKC check of the network location, the validation of a bracketed
  IPv6 host, and digits and spaces outside ASCII accepted by \<open>int\<close>.
\<close>

definition scheme_char :: "char \<Rightarrow> bool" where
  "scheme_char c = (is_alpha c \<or> is_digit c \<or> c = CHR ''+'' \<or> c = CHR ''-'' \<or> c = CHR ''.'')"

definition before :: "char \<Rightarrow> string \<Rightarrow> string" where
  \<comment> \<open>\<open>s.partition(c)[0]\<close>\<close>
  "before c s = takeWhile (\<lambda>d. d \<noteq> c) s"

definition after :: "char \<Rightarrow> string \<Rightarrow> string" where
  \<comment> \<open>\<open>s.partition(c)[2]\<close>\<close>
  "after c s = drop 1 (dropWhile (\<lambda>d. d \<noteq> c) s)"

definition std_split_scheme :: "string \<Rightarrow> string \<times> string" where
  "std_split_scheme u =
     (if CHR '':'' \<in> set u \<and> before CHR '':'' u \<noteq> [] \<and> is_alpha (hd u)
         \<and> list_all scheme_char (before CHR '':'' u)
      then (str_lower (before CHR '':'' u), after CHR '':'' u)
      else ([], u))"

definition std_splitnetloc :: "string \<Rightarrow> string \<times> string" where
  "std_splitnetloc u =
     (if take 2 u = ''//''
      then (takeWhile (\<lambda>c. c \<noteq> CHR ''/'' \<and> c \<noteq> CHR ''?'' \<and> c \<noteq> CHR ''#'') (drop 2 u),
            dropWhile (\<lambda>c. c \<noteq> CHR ''/'' \<and> c \<noteq> CHR ''?'' \<and> c \<noteq> CHR ''#'') (drop 2 u))
      else ([], u))"

definition uses_params :: "string list" where
  "uses_params = [[], ''ftp'', ''hdl'', ''prospero'', ''http'', ''imap'', ''https'', ''shttp'',
     ''rtsp'', ''rtsps'', ''rtspu'', ''sip'', ''sips'', ''mms'', ''sftp'', ''tel'']"

definition std_splitparams :: "string \<Rightarrow> string \<times> string" where
  "std_splitparams u =
     (let tail = after_last_slash u;
          head = take (length u - length tail) u
      in if CHR '';'' \<in> set tail then (head @ before CHR '';'' tail, after CHR '';'' tail)
         else (u, []))"

definition std_hostname :: "string \<Rightarrow> string option" where
  "std_hostname nl =
     (let hostinfo = rev (takeWhile (\<lambda>c. c \<noteq> CHR ''@'') (rev nl));
          h = (if CHR ''['' \<in> set hostinfo then before CHR '']'' (after CHR ''['' hostinfo)
               else before CHR '':'' hostinfo)
      in if h = [] then None
         else Some (str_lower (before CHR ''%'' h) @ dropWhile (\<lambda>c. c \<noteq> CHR ''%'') h))"

definition std_urlparse :: "string \<Rightarrow> error + ParseResult" where
  "std_urlparse u0 =
     (let u1 = filter (\<lambda>c. c \<noteq> CHR 0x09 \<and> c \<noteq> CHR 0x0D \<and> c \<noteq> CHR 0x0A)
                 (dropWhile (\<lambda>c. c \<le> CHR 0x20) u0);
          (sch, u2) = std_split_scheme u1;
          (nl, u3) = std_splitnetloc u2
      in if (CHR ''['' \<in> set nl \<and> CHR '']'' \<notin> set nl) \<or> (CHR '']'' \<in> set nl \<and> CHR ''['' \<notin> set nl)
         then Inl ValueError
         else
           (let frag = after CHR ''#'' u3;
                u4 = before CHR ''#'' u3;
                qry = after CHR ''?'' u4;
                u5 = before CHR ''?'' u4;
                (pth, prm) = (if sch \<in> set uses_params \<and> CHR '';'' \<in> set u5
                              then std_splitparams u5 else (u5, []))
            in Inr \<lparr> scheme = sch, netloc = nl, path = pth, params = prm, query = qry,
                     fragment = frag, hostname = std_hostname nl \<rparr>))"

fun split_where :: "(char \<Rightarrow> bool) \<Rightarrow> string \<Rightarrow> string list" where
  \<comment> \<open>the pieces of a string between the characters that satisfy \<open>P\<close>\<close>
  "split_where P [] = [[]]"
| "split_where P (d # s) =
     (case split_where P s of
        [] \<Rightarrow> [[d]]
      | w # ws \<Rightarrow> if P d then [] # w # ws else (d # w) # ws)"

definition split_on :: "char \<Rightarrow> string \<Rightarrow> string list" where
  \<comment> \<open>\<open>s.split(c)\<close>\<close>
  "split_on c s = split_where (\<lambda>d. d = c) s"

fun join_with :: "string \<Rightarrow> string list \<Rightarrow> string" where
  \<comment> \<open>\<open>sep.join(ws)\<close>\<close>
  "join_with sep [] = []"
| "join_with sep [w] = w"
| "join_with sep (w # ws) = w @ sep @ join_with sep ws"

definition norm_step :: "nat \<Rightarrow> string list \<Rightarrow> string \<Rightarrow> string list" where
  \<comment> \<open>the body of the loop of \<open>posixpath.normpath\<close> over the components\<close>
  "norm_step initial_slashes new_comps seg =
     (if seg = [] \<or> seg = ''.'' then new_comps
      else if seg \<noteq> ''..'' \<or> (initial_slashes = 0 \<and> new_comps = [])
              \<or> (new_comps \<noteq> [] \<and> last new_comps = ''..'')
           then new_comps @ [seg]
      else if new_comps \<noteq> [] then butlast new_comps
      else new_comps)"

definition posixpath_normpath :: "string \<Rightarrow> string" where
  "posixpath_normpath p =
     (if p = [] then ''.''
      else
        (let initial_slashes =
               (if startswith p ''/'' then
                  (if startswith p ''//'' \<and> \<not> startswith p ''///'' then 2 else 1)
                else (0::nat));
             comps = foldl (norm_step initial_slashes) [] (split_on CHR ''/'' p);
             q = replicate initial_slashes CHR ''/'' @ join_with ''/'' comps
         in if q = [] then ''.'' else q))"

definition std_normpath :: "string \<Rightarrow> string" where
  \<comment> \<open>\<open>posixpath.normpath\<close>, then two leading slashes collapsed to one\<close>
  "std_normpath p =
     (let q = posixpath_normpath p
      in if startswith q ''//'' then CHR ''/'' # dropWhile (\<lambda>c. c = CHR ''/'') q else q)"

definition is_space :: "char \<Rightarrow> bool" where
  "is_space c = (c = CHR '' '' \<or> (CHR 0x09 \<le> c \<and> c \<le> CHR 0x0D) \<or> (CHR 0x1C \<le> c \<and> c \<le> CHR 0x1F))"

definition str_strip :: "string \<Rightarrow> string" where
  \<comment> \<open>\<open>s.strip()\<close>\<close>
  "str_strip s = rev (dropWhile is_space (rev (dropWhile is_space s)))"

definition str_words :: "string \<Rightarrow> string list" where
  \<comment> \<open>\<open>s.split()\<close>\<close>
  "str_words s = filter (\<lambda>w. w \<noteq> []) (split_where is_space s)"

definition valid_digits :: "string \<Rightarrow> bool" where
  \<comment> \<open>decimal digits, with single underscores between digits\<close>
  "valid_digits r =
     (r \<noteq> [] \<and> is_digit (hd r) \<and> is_digit (last r)
      \<and> list_all (\<lambda>c. is_digit c \<or> c = CHR ''_'') r \<and> \<not> str_contains ''__'' r)"

definition std_int :: "string \<Rightarrow> int option" where
  "std_int s =
     (let t = str_strip s;
          neg = (t \<noteq> [] \<and> hd t = CHR ''-'');
          r = (if t \<noteq> [] \<and> (hd t = CHR ''-'' \<or> hd t = CHR ''+'') then tl t else t)
      in if valid_digits r
         then Some ((if neg then - 1 else 1) * int (nat_of_digits (filter is_digit r)))
         else None)"

definition stdlib :: library where
  "stdlib = \<lparr> urlparse = std_urlparse, normpath = std_normpath, int_of_str = std_int \<rparr>"

definition str_of_int :: "int \<Rightarrow> string" where
  \<comment> \<open>\<open>'{}'.format(n)\<close> for an \<open>int\<close>\<close>
  "str_of_int n = (if n < 0 then CHR ''-'' # str_of_nat (nat (- n)) else str_of_nat (nat n))"

section \<open>The network\<close>

text \<open>
  The functions that talk to a judge run against a world \<open>'w\<close>: the servers together with
  the cookies of the session.  \<open>send\<close> stands for \<open>session.get\<close>, \<open>session.request\<close> and
  \<open>utils.request\<close> of that session: given method, URL and form data it answers with a
  response or raises, and changes the world; the flag is \<open>allow_redirects\<close>.  \<open>soup\<close> is
  the parser of \<open>bs4\<close>, \<open>decode\<close> is \<open>bytes.decode\<close> with the encoding of the response, \<open>urljoin\<close>
  is \<open>urllib.parse.urljoin\<close>, \<open>status_table\<close> the table \<open>http.client.responses\<close>, and
  \<open>json_c\<close> is \<open>json.loads(urllib.parse.unquote_plus(v))['c']\<close>.  A credentials provider is a
  function on the world as well, so that a call of it can be observed.
\<close>

record 'w web =
  send :: "string \<Rightarrow> string \<Rightarrow> (string \<rightharpoonup> string) \<Rightarrow> bool \<Rightarrow> 'w \<Rightarrow> (error + response) \<times> 'w"
  soup :: "string \<Rightarrow> node"
  decode :: "string \<Rightarrow> error + string"
  urljoin :: "string \<Rightarrow> string \<Rightarrow> string"
  status_table :: "nat \<rightharpoonup> string"
  json_c :: "string \<Rightarrow> error + string"

type_synonym 'w credentials = "'w \<Rightarrow> (error + string \<times> string) \<times> 'w"

definition raises_for_status :: "response \<Rightarrow> bool" where
  \<comment> \<open>\<open>resp.raise_for_status()\<close> raises \<open>HTTPError\<close> for the codes 400 to 599\<close>
  "raises_for_status resp = (400 \<le> status_code resp \<and> status_code resp < 600)"

definition find_first :: "(node \<Rightarrow> bool) \<Rightarrow> node \<Rightarrow> node option" where
  \<comment> \<open>\<open>soup.find(...)\<close>: the first node below the root, in document order, that matches\<close>
  "find_first P t = (case filter P (descendants t) of [] \<Rightarrow> None | x # xs \<Rightarrow> Some x)"

definition upper_char :: "char \<Rightarrow> char" where
  "upper_char c = (if CHR ''a'' \<le> c \<and> c \<le> CHR ''z'' then char_of (of_char c - (32::nat)) else c)"

definition str_upper :: "string \<Rightarrow> string" where
  \<comment> \<open>\<open>s.upper()\<close> on ASCII\<close>
  "str_upper s = map upper_char s"

definition FormSender_request ::
  "'w web \<Rightarrow> FormSender \<Rightarrow> 'w \<Rightarrow> ((error + response) \<times> log_record list) \<times> 'w" where
  "FormSender_request web fs w =
     (case attr (form fs) ''action'' of
        Inl e \<Rightarrow> ((Inl e, []), w)
      | Inr a \<Rightarrow>
          (case attr (form fs) ''method'' of
             Inl e \<Rightarrow> ((Inl e, []), w)
           | Inr m \<Rightarrow>
               (let u = urljoin web (page_url fs) a;
                    l0 = [Log INFO ''status'' (str_upper m @ '': '' @ u)]
                in case send web (str_upper m) u (payload fs) True w of
                     (Inl e, w1) \<Rightarrow> ((Inl e, l0), w1)
                   | (Inr resp, w1) \<Rightarrow>
                       (case describe_status_code (status_table web) (status_code resp) of
                          Inl e \<Rightarrow> ((Inl e, l0), w1)
                        | Inr d \<Rightarrow> ((Inr resp, l0 @ [Log INFO ''info'' d]), w1)))))"

section \<open>Yukicoder\<close>

record Yukicoder =
  problem_no :: "nat option"
  yukicoder_problem_id :: "nat option"

definition truthy :: "nat option \<Rightarrow> bool" where
  \<comment> \<open>the truth value of an optional \<open>int\<close>: neither \<open>None\<close> nor 0\<close>
  "truthy x = (case x of None \<Rightarrow> False | Some n \<Rightarrow> n \<noteq> 0)"

definition Yukicoder_init :: "nat option \<Rightarrow> nat option \<Rightarrow> error + Yukicoder" where
  "Yukicoder_init no pid =
     (if \<not> (truthy no \<or> truthy pid) then Inl AssertionError
      else Inr \<lparr> problem_no = no, yukicoder_problem_id = pid \<rparr>)"

definition Yukicoder_get_url :: "Yukicoder \<Rightarrow> error + string" where
  "Yukicoder_get_url self =
     (if truthy (problem_no self)
      then Inr (''https://yukicoder.me/problems/no/'' @ str_of_nat (the (problem_no self)))
      else if truthy (yukicoder_problem_id self)
      then Inr (''https://yukicoder.me/problems/'' @ str_of_nat (the (yukicoder_problem_id self)))
      else Inl AssertionError)"

definition opt_prefix :: "string \<Rightarrow> string \<Rightarrow> string" where
  \<comment> \<open>an optional literal of a pattern, taken when it is there\<close>
  "opt_prefix p s = (case strip_prefix p s of None \<Rightarrow> s | Some r \<Rightarrow> r)"

definition match_problem_url :: "string \<Rightarrow> (bool \<times> string) option" where
  \<comment> \<open>\<open>re.match('^https?://yukicoder\.me/problems/(no/)?([0-9]+)/?$', s)\<close>: whether group 1
      took part, and group 2\<close>
  "match_problem_url s =
     (case strip_prefix ''http'' s of
        None \<Rightarrow> None
      | Some r0 \<Rightarrow>
          (case strip_prefix ''://yukicoder.me/problems/'' (opt_prefix ''s'' r0) of
             None \<Rightarrow> None
           | Some r1 \<Rightarrow>
               (let r2 = opt_prefix ''no/'' r1
                in if takeWhile is_digit r2 \<noteq> []
                      \<and> at_end (opt_prefix ''/'' (dropWhile is_digit r2))
                   then Some (strip_prefix ''no/'' r1 \<noteq> None, takeWhile is_digit r2)
                   else None)))"

definition Yukicoder_from_url :: "string \<Rightarrow> error + Yukicoder option" where
  "Yukicoder_from_url s =
     (case match_problem_url s of
        None \<Rightarrow> Inr None
      | Some (g1, g2) \<Rightarrow>
          (let z = dropWhile (\<lambda>c. c = CHR ''0'') g2;
               n = nat_of_digits (if z = [] then ''0'' else z)
           in case (if g1 then Yukicoder_init (Some n) None else Yukicoder_init None (Some n)) of
                Inl e \<Rightarrow> Inl e
              | Inr p \<Rightarrow> Inr (Some p)))"

definition match_submission_url :: "string \<Rightarrow> bool" where
  \<comment> \<open>\<open>re.match('^https?://yukicoder.me/submissions/[0-9]+/?$', s)\<close>; the dot of this
      pattern is not escaped and matches any character but a newline\<close>
  "match_submission_url s =
     (case strip_prefix ''http'' s of
        None \<Rightarrow> False
      | Some r0 \<Rightarrow>
          (case strip_prefix ''://yukicoder'' (opt_prefix ''s'' r0) of
             None \<Rightarrow> False
           | Some r1 \<Rightarrow>
               r1 \<noteq> [] \<and> hd r1 \<noteq> CHR 0x0A \<and>
               (case strip_prefix ''me/submissions/'' (tl r1) of
                  None \<Rightarrow> False
                | Some r2 \<Rightarrow>
                    takeWhile is_digit r2 \<noteq> []
                    \<and> at_end (opt_prefix ''/'' (dropWhile is_digit r2)))))"

definition yukicoder_get ::
  "'w web \<Rightarrow> string \<Rightarrow> 'w \<Rightarrow> ((error + response) \<times> log_record list) \<times> 'w" where
  \<comment> \<open>the block that opens \<open>login_with_github\<close> and \<open>submit\<close>: log, \<open>session.get(url)\<close>,
      log the status, \<open>resp.raise_for_status()\<close>\<close>
  "yukicoder_get web u w =
     (let l0 = [Log INFO ''status'' (''GET: '' @ u)]
      in case send web ''GET'' u Map.empty True w of
           (Inl e, w1) \<Rightarrow> ((Inl e, l0), w1)
         | (Inr resp, w1) \<Rightarrow>
             (case describe_status_code (status_table web) (status_code resp) of
                Inl e \<Rightarrow> ((Inl e, l0), w1)
              | Inr d \<Rightarrow>
                  if raises_for_status resp then ((Inl HTTPError, l0 @ [Log INFO ''info'' d]), w1)
                  else ((Inr resp, l0 @ [Log INFO ''info'' d]), w1)))"

definition on_yukicoder :: "library \<Rightarrow> response \<Rightarrow> error + bool" where
  \<comment> \<open>\<open>urllib.parse.urlparse(resp.url).hostname == 'yukicoder.me'\<close>\<close>
  "on_yukicoder lib resp =
     (case urlparse lib (url resp) of
        Inl e \<Rightarrow> Inl e
      | Inr r \<Rightarrow> Inr (hostname r = Some ''yukicoder.me''))"

definition github_post ::
  "library \<Rightarrow> 'w web \<Rightarrow> node \<Rightarrow> response \<Rightarrow> string \<Rightarrow> string \<Rightarrow> 'w
     \<Rightarrow> ((error + bool) \<times> log_record list) \<times> 'w" where
  \<comment> \<open>the block \<open># post\<close> of \<open>login_with_github\<close>, after the credentials were read\<close>
  "github_post lib web f resp username password w =
     (case FormSender_init f (url resp) of
        Inl e \<Rightarrow> ((Inl e, []), w)
      | Inr fs0 \<Rightarrow>
          (case FormSender_request web
                  (FormSender_set (FormSender_set fs0 ''login'' username) ''password'' password) w of
             ((Inl e, l), w1) \<Rightarrow> ((Inl e, l), w1)
           | ((Inr resp2, l), w1) \<Rightarrow>
               if raises_for_status resp2 then ((Inl HTTPError, l), w1)
               else (case on_yukicoder lib resp2 of
                       Inl e \<Rightarrow> ((Inl e, l), w1)
                     | Inr True \<Rightarrow> ((Inr True, l @ [Log INFO ''success'' ''You signed in.'']), w1)
                     | Inr False \<Rightarrow>
                         ((Inr False,
                           l @ [Log ERROR ''error''
                                  ''You failed to sign in. Wrong user ID or password.'']), w1))))"

definition Yukicoder_login_with_github ::
  "library \<Rightarrow> 'w web \<Rightarrow> 'w credentials \<Rightarrow> 'w \<Rightarrow> ((error + bool) \<times> log_record list) \<times> 'w" where
  "Yukicoder_login_with_github lib web get_credentials w =
     (case yukicoder_get web ''https://yukicoder.me/auth/github'' w of
        ((Inl e, l), w1) \<Rightarrow> ((Inl e, l), w1)
      | ((Inr resp, l), w1) \<Rightarrow>
          (case on_yukicoder lib resp of
             Inl e \<Rightarrow> ((Inl e, l), w1)
           | Inr True \<Rightarrow> ((Inr True, l @ [Log INFO ''info'' ''You have already signed in.'']), w1)
           | Inr False \<Rightarrow>
               (case find_first (is_tag_named ''form'') (soup web (content resp)) of
                  None \<Rightarrow>
                    ((Inr False,
                      l @ [Log ERROR ''error'' ''form not found'',
                           Log INFO ''info'' ''Did you logged in?'']), w1)
                | Some f \<Rightarrow>
                    (case get_credentials w1 of
                       (Inl e, w2) \<Rightarrow> ((Inl e, l), w2)
                     | (Inr (username, password), w2) \<Rightarrow>
                         (case github_post lib web f resp username password w2 of
                            ((r, l2), w3) \<Rightarrow> ((r, l @ l2), w3))))))"

definition Yukicoder_login ::
  "library \<Rightarrow> 'w web \<Rightarrow> 'w credentials \<Rightarrow> string option \<Rightarrow> 'w
     \<Rightarrow> ((error + bool) \<times> log_record list) \<times> 'w" where
  "Yukicoder_login lib web get_credentials method w =
     (if method = Some ''github'' then Yukicoder_login_with_github lib web get_credentials w
      else if method = Some ''twitter'' then ((Inl NotImplementedError, []), w)
      else ((Inl AssertionError, []), w))"

definition yukicoder_languages :: "(string \<times> string) list" where
  "yukicoder_languages =
     [(''cpp'', ''C++11 (gcc 4.8.5)''), (''cpp14'', ''C++14 (gcc 6.2.0)''),
      (''c'', ''C (gcc 4.8.5)''), (''java8'', ''Java8 (openjdk 1.8.0_111)''),
      (''csharp'', ''C# (mono 4.6.1)''), (''perl'', ''Perl (5.16.3)''),
      (''perl6'', ''Perl6 (rakudo 2016.10-114-g8e79509)''), (''php'', ''PHP (5.4.16)''),
      (''python'', ''Python2 (2.7.11)''), (''python3'', ''Python3 (3.5.1)''),
      (''pypy2'', ''PyPy2 (4.0.0)''), (''pypy3'', ''PyPy3 (2.4.0)''),
      (''ruby'', ''Ruby (2.3.1p112)''), (''d'', ''D (dmd 2.071.1)''), (''go'', ''Go (1.7.3)''),
      (''haskell'', ''Haskell (7.8.3)''), (''scala'', ''Scala (2.11.8)''),
      (''nim'', ''Nim (0.15.2)''), (''rust'', ''Rust (1.12.1)''), (''kotlin'', ''Kotlin (1.0.2)''),
      (''scheme'', ''Scheme (Gauche-0.9.4)''), (''crystal'', ''Crystal (0.19.4)''),
      (''ocaml'', ''OCaml (4.01.1)''), (''fsharp'', ''F# (4.0)''), (''elixir'', ''Elixir (0.12.5)''),
      (''lua'', ''Lua (LuaJit 2.0.4)''), (''fortran'', ''Fortran (gFortran 4.8.5)''),
      (''node'', ''JavaScript (node v7.0.0)''), (''vim'', ''Vim script (v8.0.0124)''),
      (''sh'', ''Bash (Bash 4.2.46)''), (''text'', ''Text (cat 8.22)''),
      (''nasm'', ''Assembler (nasm 2.10.07)''), (''bf'', ''Brainfuck (BFI 1.1)''),
      (''Whitespace'', ''Whitespace (0.3)'')]"

definition Yukicoder_get_languages :: "string list" where
  "Yukicoder_get_languages = map fst yukicoder_languages"

definition submit_form :: "node \<Rightarrow> bool" where
  \<comment> \<open>the filter of \<open>soup.find('form', action=re.compile('/submit$'))\<close>\<close>
  "submit_form t =
     (is_tag_named ''form'' t \<and>
      (case attr t ''action'' of
         Inl e \<Rightarrow> False
       | Inr a \<Rightarrow> endswith a ''/submit'' \<or> endswith a (''/submit'' @ [CHR 0x0A])))"

definition Yukicoder_submit_result :: "response \<Rightarrow> bool \<times> log_record list" where
  \<comment> \<open>the block \<open># result\<close> of \<open>submit\<close>\<close>
  "Yukicoder_submit_result resp =
     (if match_submission_url (url resp)
      then (True, [Log INFO ''success'' (''success: result: '' @ url resp)])
      else (False, [Log INFO ''failure'' ''failure'']))"

definition Yukicoder_submit ::
  "'w web \<Rightarrow> Yukicoder \<Rightarrow> string \<Rightarrow> string option \<Rightarrow> 'w
     \<Rightarrow> ((error + bool) \<times> log_record list) \<times> 'w" where
  "Yukicoder_submit web self code language w =
     (case language of
        None \<Rightarrow> ((Inl AssertionError, []), w)
      | Some lang \<Rightarrow>
          if lang \<notin> set Yukicoder_get_languages then ((Inl AssertionError, []), w)
          else
            (case Yukicoder_get_url self of
               Inl e \<Rightarrow> ((Inl e, []), w)
             | Inr u \<Rightarrow>
                 (case yukicoder_get web (u @ ''/submit'') w of
                    ((Inl e, l), w1) \<Rightarrow> ((Inl e, l), w1)
                  | ((Inr resp, l), w1) \<Rightarrow>
                      (case find_first submit_form (soup web (content resp)) of
                         None \<Rightarrow>
                           ((Inr False,
                             l @ [Log ERROR ''error'' ''form not found'',
                                  Log INFO ''info'' ''Did you logged in?'']), w1)
                       | Some f \<Rightarrow>
                           (case FormSender_init f (url resp) of
                              Inl e \<Rightarrow> ((Inl e, l), w1)
                            | Inr fs0 \<Rightarrow>
                                (case FormSender_request web
                                        (FormSender_set (FormSender_set fs0 ''source'' code)
                                           ''lang'' lang) w1 of
                                   ((Inl e, l2), w2) \<Rightarrow> ((Inl e, l @ l2), w2)
                                 | ((Inr resp2, l2), w2) \<Rightarrow>
                                     if raises_for_status resp2
                                     then ((Inl HTTPError, l @ l2), w2)
                                     else ((Inr (fst (Yukicoder_submit_result resp2)),
                                            l @ l2 @ snd (Yukicoder_submit_result resp2)),
                                           w2)))))))"

section \<open>AtCoder: login and submission\<close>

text \<open>
  The calls of the logging module in \<open>service/atcoder.py\<close> cannot raise and do not change
  a result; they are left out, and so are the records \<open>FormSender.request\<close> writes when it
  is called from there.
\<close>

fun is_tag :: "node \<Rightarrow> bool" where
  "is_tag (Tag n a cs) = True"
| "is_tag (NavigableString s) = False"

fun node_string :: "node \<Rightarrow> string option" where
  \<comment> \<open>\<open>tag.string\<close>: the string of a node with a single child, followed down\<close>
  "node_string (NavigableString s) = Some s"
| "node_string (Tag n a [c]) = node_string c"
| "node_string (Tag n a cs) = None"

definition has_text :: "node \<Rightarrow> bool" where
  \<comment> \<open>\<open>tag.string and tag.string.strip()\<close>\<close>
  "has_text t = (case node_string t of None \<Rightarrow> False | Some s \<Rightarrow> str_strip s \<noteq> [])"

definition message_text :: "node \<Rightarrow> string option" where
  \<comment> \<open>the string of the first tag of \<open>soup.find_all()\<close> that has text\<close>
  "message_text doc =
     (case filter (\<lambda>t. is_tag t \<and> has_text t) (descendants doc) of
        [] \<Rightarrow> None
      | t # ts \<Rightarrow> node_string t)"

fun message_tags :: "'w web \<Rightarrow> (string \<times> string) list \<Rightarrow> error + string list" where
  \<comment> \<open>the first loop of \<open>_get_messages_from_cookie\<close>, over (name, value) of the cookies\<close>
  "message_tags web [] = Inr []"
| "message_tags web ((name, v) # cs) =
     (if startswith name ''__message_''
      then (case json_c web v of
              Inl e \<Rightarrow> Inl e
            | Inr t \<Rightarrow> (case message_tags web cs of Inl e \<Rightarrow> Inl e | Inr ts \<Rightarrow> Inr (t # ts)))
      else message_tags web cs)"

definition get_messages_from_cookie :: "'w web \<Rightarrow> (string \<times> string) list \<Rightarrow> error + string list" where
  "get_messages_from_cookie web cs =
     (case message_tags web cs of
        Inl e \<Rightarrow> Inl e
      | Inr tags \<Rightarrow> Inr (List.map_filter (\<lambda>t. message_text (soup web t)) tags))"

definition AtCoderService_login ::
  "'w web \<Rightarrow> 'w credentials \<Rightarrow> 'w \<Rightarrow> (error + bool) \<times> 'w" where
  "AtCoderService_login web get_credentials w =
     (case send web ''GET'' ''https://practice.contest.atcoder.jp/login'' Map.empty False w of
        (Inl e, w1) \<Rightarrow> (Inl e, w1)
      | (Inr resp, w1) \<Rightarrow>
          (case get_messages_from_cookie web (cookies resp) of
             Inl e \<Rightarrow> (Inl e, w1)
           | Inr msgs \<Rightarrow>
               if msgs \<noteq> [] then (Inr (\<not> str_contains ''login'' (url resp)), w1)
               else
                 (case get_credentials w1 of
                    (Inl e, w2) \<Rightarrow> (Inl e, w2)
                  | (Inr (username, password), w2) \<Rightarrow>
                      (case send web ''POST'' ''https://practice.contest.atcoder.jp/login''
                              [''name'' \<mapsto> username, ''password'' \<mapsto> password] False w2 of
                         (Inl e, w3) \<Rightarrow> (Inl e, w3)
                       | (Inr resp2, w3) \<Rightarrow>
                           (case get_messages_from_cookie web (cookies resp2) of
                              Inl e \<Rightarrow> (Inl e, w3)
                            | Inr msgs2 \<Rightarrow>
                                (Inr (\<not> str_contains ''login'' (url resp2)), w3))))))"

definition has_class :: "string \<Rightarrow> node \<Rightarrow> bool" where
  \<comment> \<open>the filter \<open>class_=c\<close>: \<open>c\<close> is one of the classes of the tag\<close>
  "has_class c t = (case attr t ''class'' of Inl e \<Rightarrow> False | Inr v \<Rightarrow> v = c \<or> c \<in> set (str_words v))"

definition attr_startswith :: "string \<Rightarrow> string \<Rightarrow> node \<Rightarrow> bool" where
  \<comment> \<open>the filter \<open>k=re.compile('^' + p)\<close> for a literal \<open>p\<close>\<close>
  "attr_startswith k p t = (case attr t k of Inl e \<Rightarrow> False | Inr v \<Rightarrow> startswith v p)"

fun language_entries :: "node list \<Rightarrow> error + (string \<rightharpoonup> string option)" where
  \<comment> \<open>the loop of \<open>get_language_dict\<close> over the options of the selector\<close>
  "language_entries [] = Inr Map.empty"
| "language_entries (opt # opts) =
     (case attr opt ''value'' of
        Inl e \<Rightarrow> Inl e
      | Inr v \<Rightarrow>
          (case language_entries opts of
             Inl e \<Rightarrow> Inl e
           | Inr d \<Rightarrow> Inr (if v \<in> dom d then d else d(v \<mapsto> node_string opt))))"

definition on_login_page :: "library \<Rightarrow> response \<Rightarrow> error + bool" where
  \<comment> \<open>\<open>utils.normpath(urllib.parse.urlparse(resp.url).path).startswith('/login')\<close>\<close>
  "on_login_page lib resp =
     (case urlparse lib (url resp) of
        Inl e \<Rightarrow> Inl e
      | Inr r \<Rightarrow> Inr (startswith (normpath lib (path r)) ''/login''))"

definition parse_page :: "'w web \<Rightarrow> response \<Rightarrow> error + node" where
  \<comment> \<open>\<open>bs4.BeautifulSoup(resp.content.decode(resp.encoding), utils.html_parser)\<close>\<close>
  "parse_page web resp = (case decode web (content resp) of Inl e \<Rightarrow> Inl e | Inr s \<Rightarrow> Inr (soup web s))"

definition AtCoderProblem_get_language_dict ::
  "library \<Rightarrow> 'w web \<Rightarrow> AtCoderProblem \<Rightarrow> 'w \<Rightarrow> (error + (string \<rightharpoonup> string option)) \<times> 'w" where
  "AtCoderProblem_get_language_dict lib web self w =
     (case send web ''GET'' (''http://'' @ contest_id self @ ''.contest.atcoder.jp/submit'')
             Map.empty True w of
        (Inl e, w1) \<Rightarrow> (Inl e, w1)
      | (Inr resp, w1) \<Rightarrow>
          (case get_messages_from_cookie web (cookies resp) of
             Inl e \<Rightarrow> (Inl e, w1)
           | Inr msgs \<Rightarrow>
               if msgs \<noteq> [] then (Inr Map.empty, w1)
               else
                 (case on_login_page lib resp of
                    Inl e \<Rightarrow> (Inl e, w1)
                  | Inr True \<Rightarrow> (Inr Map.empty, w1)
                  | Inr False \<Rightarrow>
                      (case parse_page web resp of
                         Inl e \<Rightarrow> (Inl e, w1)
                       | Inr doc \<Rightarrow>
                           (case find_first (\<lambda>t. is_tag_named ''select'' t
                                     \<and> has_class ''submit-language-selector'' t) doc of
                              None \<Rightarrow> (Inl AttributeError, w1)
                            | Some sel \<Rightarrow> (language_entries (find_all ''option'' sel), w1))))))"

definition match_task_href :: "string \<Rightarrow> string option" where
  \<comment> \<open>\<open>re.match('^/submit\?task_id=([0-9]+)$', href)\<close>: the group\<close>
  "match_task_href h =
     (case strip_prefix ''/submit?task_id='' h of
        None \<Rightarrow> None
      | Some r \<Rightarrow>
          if takeWhile is_digit r \<noteq> [] \<and> at_end (dropWhile is_digit r)
          then Some (takeWhile is_digit r) else None)"

definition AtCoderProblem_get_task_id ::
  "'w web \<Rightarrow> AtCoderProblem \<Rightarrow> 'w \<Rightarrow> ((error + nat) \<times> AtCoderProblem) \<times> 'w" where
  "AtCoderProblem_get_task_id web self w =
     (case task_id self of
        Some n \<Rightarrow> ((Inr n, self), w)
      | None \<Rightarrow>
          (case send web ''GET'' (AtCoderProblem_get_url self) Map.empty True w of
             (Inl e, w1) \<Rightarrow> ((Inl e, self), w1)
           | (Inr resp, w1) \<Rightarrow>
               (case get_messages_from_cookie web (cookies resp) of
                  Inl e \<Rightarrow> ((Inl e, self), w1)
                | Inr msgs \<Rightarrow>
                    if msgs \<noteq> [] then ((Inl SubmissionError, self), w1)
                    else
                      (case parse_page web resp of
                         Inl e \<Rightarrow> ((Inl e, self), w1)
                       | Inr doc \<Rightarrow>
                           (case find_first (\<lambda>t. is_tag_named ''a'' t
                                     \<and> attr_startswith ''href'' ''/submit?task_id='' t) doc of
                              None \<Rightarrow> ((Inl SubmissionError, self), w1)
                            | Some a \<Rightarrow>
                                (case attr a ''href'' of
                                   Inl e \<Rightarrow> ((Inl e, self), w1)
                                 | Inr h \<Rightarrow>
                                     (case match_task_href h of
                                        None \<Rightarrow> ((Inl AssertionError, self), w1)
                                      | Some ds \<Rightarrow>
                                          ((Inr (nat_of_digits ds),
                                            self\<lparr> task_id := Some (nat_of_digits ds) \<rparr>), w1))))))))"

definition AtCoderProblem_submit_result :: "AtCoderProblem \<Rightarrow> response \<Rightarrow> error + string" where
  \<comment> \<open>the block \<open># result\<close> of \<open>submit_code\<close>, after the messages were reported: the URL of
      the \<open>DummySubmission\<close> returned, or the \<open>SubmissionError\<close> raised\<close>
  "AtCoderProblem_submit_result self resp =
     (if str_contains ''/submissions/me'' (url resp)
      then Inr (''https://beta.atcoder.jp/contests/'' @ contest_id self @ ''/submissions/me'')
      else Inl SubmissionError)"

definition AtCoderProblem_post ::
  "'w web \<Rightarrow> AtCoderProblem \<Rightarrow> node \<Rightarrow> response \<Rightarrow> nat \<Rightarrow> string \<Rightarrow> string \<Rightarrow> 'w
     \<Rightarrow> (error + string) \<times> 'w" where
  \<comment> \<open>the blocks \<open># post\<close> and \<open># result\<close> of \<open>submit_code\<close>, after the task id was read\<close>
  "AtCoderProblem_post web self f resp tid code language w =
     (case FormSender_init f (url resp) of
        Inl e \<Rightarrow> (Inl e, w)
      | Inr fs0 \<Rightarrow>
          (case FormSender_request web
                  (FormSender_set
                     (FormSender_set (FormSender_set fs0 ''task_id'' (str_of_nat tid))
                        ''source_code'' code)
                     (''language_id_'' @ str_of_nat tid) language) w of
             ((Inl e, l), w1) \<Rightarrow> (Inl e, w1)
           | ((Inr resp2, l), w1) \<Rightarrow>
               if raises_for_status resp2 then (Inl HTTPError, w1)
               else (case get_messages_from_cookie web (cookies resp2) of
                       Inl e \<Rightarrow> (Inl e, w1)
                     | Inr msgs \<Rightarrow> (AtCoderProblem_submit_result self resp2, w1))))"

definition AtCoderProblem_submit_code ::
  "library \<Rightarrow> 'w web \<Rightarrow> AtCoderProblem \<Rightarrow> string \<Rightarrow> string \<Rightarrow> 'w
     \<Rightarrow> ((error + string) \<times> AtCoderProblem) \<times> 'w" where
  "AtCoderProblem_submit_code lib web self code language w =
     (case AtCoderProblem_get_language_dict lib web self w of
        (Inl e, w0) \<Rightarrow> ((Inl e, self), w0)
      | (Inr d, w0) \<Rightarrow>
          if language \<notin> dom d then ((Inl AssertionError, self), w0)
          else
            (case send web ''GET'' (''http://'' @ contest_id self @ ''.contest.atcoder.jp/submit'')
                    Map.empty True w0 of
               (Inl e, w1) \<Rightarrow> ((Inl e, self), w1)
             | (Inr resp, w1) \<Rightarrow>
                 (case get_messages_from_cookie web (cookies resp) of
                    Inl e \<Rightarrow> ((Inl e, self), w1)
                  | Inr msgs \<Rightarrow>
                      if msgs \<noteq> [] then ((Inl SubmissionError, self), w1)
                      else
                        (case on_login_page lib resp of
                           Inl e \<Rightarrow> ((Inl e, self), w1)
                         | Inr True \<Rightarrow> ((Inl SubmissionError, self), w1)
                         | Inr False \<Rightarrow>
                             (case parse_page web resp of
                                Inl e \<Rightarrow> ((Inl e, self), w1)
                              | Inr doc \<Rightarrow>
                                  (case find_first (\<lambda>t. is_tag_named ''form'' t
                                            \<and> attr_startswith ''action'' ''/submit?task_id='' t) doc of
                                     None \<Rightarrow> ((Inl SubmissionError, self), w1)
                                   | Some f \<Rightarrow>
                                       (case AtCoderProblem_get_task_id web self w1 of
                                          ((Inl e, self1), w2) \<Rightarrow> ((Inl e, self1), w2)
                                        | ((Inr tid, self1), w2) \<Rightarrow>
                                            (case AtCoderProblem_post web self1 f resp tid code
                                                    language w2 of
                                               (r, w3) \<Rightarrow> ((r, self1), w3)))))))))"

section \<open>Example environments\<close>

text \<open>
  Small worlds on which the functions are evaluated.  The world is the number of times the
  credentials provider was called; the servers never change it.
\<close>

definition counting_credentials :: "nat credentials" where
  "counting_credentials n = (Inr (''user'', ''secret''), Suc n)"

definition login_page :: "string \<Rightarrow> node" where
  \<comment> \<open>what the example parser makes of a text: the page with the login form for the text
      \<open>login\<close>, a span around any other text that starts with \<open><\<close>, and the bare text
      otherwise\<close>
  "login_page s =
     (if s = ''login''
      then Tag ''[document]'' Map.empty
             [Tag ''form'' [''action'' \<mapsto> ''/session'', ''method'' \<mapsto> ''post'']
                [Tag ''input'' [''name'' \<mapsto> ''token'', ''value'' \<mapsto> ''t0''] []]]
      else if startswith s ''<''
      then Tag ''[document]'' Map.empty [Tag ''span'' Map.empty [NavigableString (tl s)]]
      else Tag ''[document]'' Map.empty [NavigableString s])"

definition example_web :: "(string \<Rightarrow> string \<Rightarrow> response) \<Rightarrow> nat web" where
  \<comment> \<open>a server that answers method and URL by \<open>answer\<close>; the value of a message cookie is
      the message itself\<close>
  "example_web answer =
     \<lparr> send = (\<lambda>m u d r n. (Inr (answer m u), n)),
       soup = login_page,
       decode = Inr,
       urljoin = (\<lambda>base a. a),
       status_table = [200 \<mapsto> ''OK'', 302 \<mapsto> ''Found''],
       json_c = Inr \<rparr>"

definition atcoder_answer :: "string \<Rightarrow> string \<Rightarrow> string \<Rightarrow> response" where
  \<comment> \<open>every request is answered by a redirection that sets one message cookie\<close>
  "atcoder_answer msg m u =
     \<lparr> status_code = 302, url = u, content = [], cookies = [(''__message_0'', msg)] \<rparr>"

definition yukicoder_answer :: "string \<Rightarrow> string \<Rightarrow> string \<Rightarrow> response" where
  \<comment> \<open>every request ends on the page \<open>final\<close> of yukicoder, which has no form\<close>
  "yukicoder_answer final m u =
     \<lparr> status_code = 200, url = final, content = ''top'', cookies = [] \<rparr>"

section \<open>Properties of the sample pairing\<close>

lemma length_pairs_of: "length (pairs_of xs) = length xs div 2"
  by (induction xs rule: pairs_of.induct) auto

lemma nth_pairs_of:
  "k < length xs div 2 \<Longrightarrow> pairs_of xs ! k = (xs ! (2 * k), xs ! (2 * k + 1))"
proof (induction xs arbitrary: k rule: pairs_of.induct)
  case (1 x y r)
  then show ?case by (cases k) auto
qed auto

lemma add_None:
  "dangling z = None \<Longrightarrow> fst (SampleZipper_add z s name) = z\<lparr> dangling := Some (s, name) \<rparr>"
  by (simp add: SampleZipper_add_def)

lemma add_Some:
  "dangling z = Some d \<Longrightarrow>
     fst (SampleZipper_add z s name) = z\<lparr> data := data z @ [(d, (s, name))], dangling := None \<rparr>"
  by (simp add: SampleZipper_add_def)

lemma feed_Cons:
  "fst (SampleZipper_feed z (b # bs)) = fst (SampleZipper_feed (fst (SampleZipper_add z (fst b) (snd b))) bs)"
  by (cases b) (simp add: split_beta)

lemma feed_from_empty_slot:
  "dangling z = None \<Longrightarrow>
     fst (SampleZipper_feed z bs) =
       z\<lparr> data := data z @ pairs_of bs,
          dangling := (if even (length bs) then None else Some (last bs)) \<rparr>"
proof (induction bs arbitrary: z rule: pairs_of.induct)
  case (1 x y r)
  let ?z2 = "z\<lparr> data := data z @ [(x, y)], dangling := None \<rparr>"
  have "fst (SampleZipper_feed z (x # y # r)) = fst (SampleZipper_feed ?z2 r)"
    using "1.prems" by (simp add: feed_Cons add_None add_Some)
  also have "\<dots> = ?z2\<lparr> data := data ?z2 @ pairs_of r,
        dangling := (if even (length r) then None else Some (last r)) \<rparr>"
    by (rule "1.IH") simp
  finally show ?case by (cases r) auto
qed (simp_all add: feed_Cons add_None)

lemma zip_samples_data: "fst (zip_samples bs) = pairs_of bs"
  by (simp add: zip_samples_def split_beta SampleZipper_get_def feed_from_empty_slot
      SampleZipper_init_def)


lemma add_only_warns: "\<forall>r \<in> set (snd (SampleZipper_add z s name)). level_of r = WARNING"
  by (simp add: SampleZipper_add_def split: option.splits)

lemma feed_only_warns: "\<forall>r \<in> set (snd (SampleZipper_feed z bs)). level_of r = WARNING"
proof (induction bs arbitrary: z)
  case Nil
  show ?case by simp
next
  case (Cons b bs)
  obtain s name where b: "b = (s, name)" by (cases b)
  show ?case
    using add_only_warns [of z s name] Cons.IH [of "fst (SampleZipper_add z s name)"]
    by (auto simp: b split_beta)
qed

lemma zip_samples_log:
  "snd (zip_samples bs) =
     snd (SampleZipper_feed SampleZipper_init bs) @
     (if odd (length bs) then [Log ERROR ''error'' (''dangling sample string: '' @ snd (last bs))]
      else [])"
  by (simp add: zip_samples_def split_beta SampleZipper_get_def feed_from_empty_slot
      SampleZipper_init_def)

lemma zip_samples_errors:
  "filter (\<lambda>r. level_of r = ERROR) (snd (zip_samples bs)) =
     (if odd (length bs) then [Log ERROR ''error'' (''dangling sample string: '' @ snd (last bs))]
      else [])"
proof -
  have "filter (\<lambda>r. level_of r = ERROR) (snd (SampleZipper_feed SampleZipper_init bs)) = []"
    using feed_only_warns [of SampleZipper_init bs] by (auto simp: filter_empty_conv)
  then show ?thesis by (simp add: zip_samples_log)
qed

lemma pairs_of_snoc_even: "even (length xs) \<Longrightarrow> pairs_of (xs @ [x]) = pairs_of xs"
  by (induction xs rule: pairs_of.induct) auto

lemma pairs_of_butlast: "odd (length xs) \<Longrightarrow> pairs_of (butlast xs) = pairs_of xs"
proof -
  assume o: "odd (length xs)"
  then have ne: "xs \<noteq> []" by auto
  then have "xs = butlast xs @ [last xs]" by simp
  moreover have "even (length (butlast xs))" using o ne by (simp)
  ultimately show ?thesis using pairs_of_snoc_even by metis
qed

text \<open>
  Claim C1.  When \<open>n\<close> blocks are added in order to a fresh zipper, \<open>get()\<close> returns
  \<open>n div 2\<close> pairs, the \<open>k\<close>-th of them (counting from 0) made of block \<open>2k\<close> as
  input and block \<open>2k + 1\<close> as output.  An error record naming the trailing block is
  logged exactly when \<open>n\<close> is odd, and the pairs returned then are those of the blocks
  before it.
\<close>

theorem SampleZipper_pairs_in_order:
  "length (fst (zip_samples bs)) = length bs div 2 \<and>
   (\<forall>k < length bs div 2. fst (zip_samples bs) ! k = (bs ! (2 * k), bs ! (2 * k + 1))) \<and>
   filter (\<lambda>r. level_of r = ERROR) (snd (zip_samples bs)) =
     (if odd (length bs)
      then [Log ERROR ''error'' (''dangling sample string: '' @ snd (last bs))] else []) \<and>
   (odd (length bs) \<longrightarrow> fst (zip_samples bs) = fst (zip_samples (butlast bs)))"
  by (simp add: zip_samples_data length_pairs_of nth_pairs_of zip_samples_errors pairs_of_butlast)

theorem SampleZipper_pairs_in_order_witness:
  "length (fst (zip_samples [(''3\<newline>'', ''in''), (''5\<newline>'', ''out''), (''dangling'', ''in2'')])) = 1 \<and>
   fst (zip_samples [(''3\<newline>'', ''in''), (''5\<newline>'', ''out''), (''dangling'', ''in2'')]) ! 0
     = ((''3\<newline>'', ''in''), (''5\<newline>'', ''out'')) \<and>
   filter (\<lambda>r. level_of r = ERROR)
       (snd (zip_samples [(''3\<newline>'', ''in''), (''5\<newline>'', ''out''), (''dangling'', ''in2'')]))
     = [Log ERROR ''error'' ''dangling sample string: in2''] \<and>
   fst (zip_samples [(''3\<newline>'', ''in''), (''5\<newline>'', ''out''), (''dangling'', ''in2'')])
     = fst (zip_samples [(''3\<newline>'', ''in''), (''5\<newline>'', ''out'')])"
  using SampleZipper_pairs_in_order
    [of "[(''3\<newline>'', ''in''), (''5\<newline>'', ''out''), (''dangling'', ''in2'')]"]
  by (simp add: zip_samples_data)

lemma pairs_of_map: "map (map_prod f f) (pairs_of xs) = pairs_of (map f xs)"
  by (induction xs rule: pairs_of.induct) auto

text \<open>
  Claim C9.  Two block sequences with the same texts, position by position, give results of
  the same length with the same texts in the same pairs, whatever their labels are: the
  texts of the result are the texts of the blocks paired two by two, and the names of the
  result are the names of the blocks paired two by two.
\<close>

theorem SampleZipper_labels_advisory:
  "map fst bs = map fst bs' \<Longrightarrow>
     map (map_prod fst fst) (fst (zip_samples bs)) = map (map_prod fst fst) (fst (zip_samples bs'))
     \<and> length (fst (zip_samples bs)) = length (fst (zip_samples bs'))
     \<and> map (map_prod fst fst) (fst (zip_samples bs)) = pairs_of (map fst bs)
     \<and> map (map_prod snd snd) (fst (zip_samples bs)) = pairs_of (map snd bs)"
proof -
  assume a: "map fst bs = map fst bs'"
  then have "length bs = length bs'" using map_eq_imp_length_eq by blast
  then show ?thesis using a by (simp add: zip_samples_data pairs_of_map length_pairs_of)
qed

theorem SampleZipper_labels_advisory_witness:
  "map (map_prod fst fst) (fst (zip_samples [(''1'', ''Sample Input 1''), (''2'', ''Sample Output 1'')]))
     = map (map_prod fst fst) (fst (zip_samples [(''1'', ''Output''), (''2'', ''Input'')]))
   \<and> map (map_prod fst fst) (fst (zip_samples [(''1'', ''Sample Input 1''), (''2'', ''Sample Output 1'')]))
     = [(''1'', ''2'')]
   \<and> snd (zip_samples [(''1'', ''Output''), (''2'', ''Input'')])
     = [Log WARNING ''warning'' ''strange name for input string: Output'',
        Log WARNING ''warning'' ''strange name for output string: Input'']"
  using SampleZipper_labels_advisory
    [of "[(''1'', ''Sample Input 1''), (''2'', ''Sample Output 1'')]" "[(''1'', ''Output''), (''2'', ''Input'')]"]
  by (simp add: zip_samples_def SampleZipper_init_def SampleZipper_add_def SampleZipper_get_def
      output_like_def input_like_def str_icontains_def str_lower_def lower_char_def startswith_def
      char_of_eq_iff)

section \<open>Properties of FormSender\<close>

lemma add_input_cases:
  "(\<exists>k v. prefilled i k v \<and> add_input p i = p(k \<mapsto> v)) \<or>
   ((\<forall>k v. \<not> prefilled i k v) \<and> add_input p i = p)"
  by (auto simp: add_input_def prefilled_def split: sum.splits)

lemma foldl_add_input_sound:
  "foldl add_input p is k = Some v \<Longrightarrow> p k = Some v \<or> (\<exists>i \<in> set is. prefilled i k v)"
proof (induction "is" arbitrary: p)
  case Nil
  then show ?case by simp
next
  case (Cons i "is")
  from Cons.prems have "foldl add_input (add_input p i) is k = Some v" by simp
  then have "add_input p i k = Some v \<or> (\<exists>j \<in> set is. prefilled j k v)"
    by (rule Cons.IH)
  moreover have "add_input p i k = Some v \<Longrightarrow> p k = Some v \<or> prefilled i k v"
    using add_input_cases [of i p] by (auto split: if_splits)
  ultimately show ?case by auto
qed

lemma foldl_add_input_mono: "k \<in> dom p \<Longrightarrow> k \<in> dom (foldl add_input p is)"
proof (induction "is" arbitrary: p)
  case Nil
  then show ?case by simp
next
  case (Cons i "is")
  have "k \<in> dom (add_input p i)"
    using add_input_cases [of i p] Cons.prems by auto
  then show ?case using Cons.IH by simp
qed

lemma prefilled_functional: "prefilled i k v \<Longrightarrow> prefilled i k' v' \<Longrightarrow> k' = k \<and> v' = v"
  by (simp add: prefilled_def)

lemma foldl_add_input_complete:
  "i \<in> set is \<Longrightarrow> prefilled i k v \<Longrightarrow> k \<in> dom (foldl add_input p is)"
proof (induction "is" arbitrary: p)
  case Nil
  then show ?case by simp
next
  case (Cons j "is")
  show ?case
  proof (cases "i = j")
    case True
    have "add_input p j = p(k \<mapsto> v)"
      using add_input_cases [of j p] Cons.prems(2) True prefilled_functional by blast
    then have "k \<in> dom (add_input p j)" by simp
    then show ?thesis using foldl_add_input_mono by simp
  next
    case False
    then have "i \<in> set is" using Cons.prems(1) by simp
    then show ?thesis using Cons.IH Cons.prems(2) by simp
  qed
qed

lemma foldl_add_input_last:
  "prefilled i k v \<Longrightarrow> \<forall>j \<in> set js. \<forall>v'. \<not> prefilled j k v' \<Longrightarrow>
     foldl add_input p (is @ i # js) k = Some v"
proof (induction js arbitrary: "is" rule: rev_induct)
  case Nil
  have "add_input (foldl add_input p is) i = (foldl add_input p is)(k \<mapsto> v)"
    using add_input_cases [of i "foldl add_input p is"] Nil.prems(1) prefilled_functional by blast
  then show ?case by simp
next
  case (snoc j js)
  have a: "foldl add_input p (is @ i # js) k = Some v"
    using snoc by simp
  have "\<forall>v'. \<not> prefilled j k v'" using snoc.prems(2) by simp
  then have "add_input (foldl add_input p (is @ i # js)) j k = foldl add_input p (is @ i # js) k"
    using add_input_cases [of j "foldl add_input p (is @ i # js)"] by auto
  then show ?case using a by simp
qed

text \<open>
  Claim C8.  After construction, every entry \<open>k \<mapsto> v\<close> of the field map comes from an
  input of the form whose name attribute is the non-empty \<open>k\<close> and whose value attribute is
  the non-empty \<open>v\<close>; the name of every such input is a key of the map, bound to the value
  of the last such input of that name in document order.  An input that lacks either
  attribute, or has it empty, adds nothing.
\<close>

theorem FormSender_payload_prefilled:
  assumes "FormSender_init f u = Inr fs"
  shows "(\<forall>k v. payload fs k = Some v \<longrightarrow> (\<exists>i \<in> set (find_all ''input'' f). prefilled i k v)) \<and>
         (\<forall>i \<in> set (find_all ''input'' f). \<forall>k v. prefilled i k v \<longrightarrow> k \<in> dom (payload fs)) \<and>
         (\<forall>is i js. find_all ''input'' f = is @ i # js \<longrightarrow>
            (\<forall>k v. prefilled i k v \<and> (\<forall>j \<in> set js. \<forall>v'. \<not> prefilled j k v') \<longrightarrow> payload fs k = Some v))"
proof -
  from assms have p: "payload fs = foldl add_input Map.empty (find_all ''input'' f)"
    by (auto simp: FormSender_init_def split: if_splits)
  have 1: "\<forall>k v. payload fs k = Some v \<longrightarrow> (\<exists>i \<in> set (find_all ''input'' f). prefilled i k v)"
    using foldl_add_input_sound [of Map.empty "find_all ''input'' f"] by (auto simp: p)
  have 2: "\<forall>i \<in> set (find_all ''input'' f). \<forall>k v. prefilled i k v \<longrightarrow> k \<in> dom (payload fs)"
    using foldl_add_input_complete [of _ "find_all ''input'' f" _ _ Map.empty] unfolding p by blast
  have 3: "\<forall>is i js. find_all ''input'' f = is @ i # js \<longrightarrow>
            (\<forall>k v. prefilled i k v \<and> (\<forall>j \<in> set js. \<forall>v'. \<not> prefilled j k v') \<longrightarrow> payload fs k = Some v)"
    using foldl_add_input_last [of _ _ _ _ Map.empty] unfolding p by metis
  from 1 2 3 show ?thesis by blast
qed

theorem FormSender_payload_prefilled_witness:
  "FormSender_init
     (Tag ''form'' [''action'' \<mapsto> ''/submit'', ''method'' \<mapsto> ''post'']
        [Tag ''input'' [''name'' \<mapsto> ''csrf'', ''value'' \<mapsto> ''tok''] [],
         Tag ''div'' Map.empty [Tag ''input'' [''name'' \<mapsto> ''login''] [], NavigableString ''x''],
         Tag ''input'' [''name'' \<mapsto> ''q'', ''value'' \<mapsto> []] []]) ''http://example.com/''
     = Inr \<lparr> form =
         Tag ''form'' [''action'' \<mapsto> ''/submit'', ''method'' \<mapsto> ''post'']
          [Tag ''input'' [''name'' \<mapsto> ''csrf'', ''value'' \<mapsto> ''tok''] [],
           Tag ''div'' Map.empty [Tag ''input'' [''name'' \<mapsto> ''login''] [], NavigableString ''x''],
           Tag ''input'' [''name'' \<mapsto> ''q'', ''value'' \<mapsto> []] []],
         page_url = ''http://example.com/'', payload = [''csrf'' \<mapsto> ''tok''] \<rparr>
   \<and> (\<exists>i \<in> set (find_all ''input''
         (Tag ''form'' [''action'' \<mapsto> ''/submit'', ''method'' \<mapsto> ''post'']
          [Tag ''input'' [''name'' \<mapsto> ''csrf'', ''value'' \<mapsto> ''tok''] [],
           Tag ''div'' Map.empty [Tag ''input'' [''name'' \<mapsto> ''login''] [], NavigableString ''x''],
           Tag ''input'' [''name'' \<mapsto> ''q'', ''value'' \<mapsto> []] []])).
         prefilled i ''csrf'' ''tok'')"
proof -
  let ?f = "Tag ''form'' [''action'' \<mapsto> ''/submit'', ''method'' \<mapsto> ''post'']
          [Tag ''input'' [''name'' \<mapsto> ''csrf'', ''value'' \<mapsto> ''tok''] [],
           Tag ''div'' Map.empty [Tag ''input'' [''name'' \<mapsto> ''login''] [], NavigableString ''x''],
           Tag ''input'' [''name'' \<mapsto> ''q'', ''value'' \<mapsto> []] []]"
  let ?fs = "\<lparr> form = ?f, page_url = ''http://example.com/'', payload = [''csrf'' \<mapsto> ''tok''] \<rparr>"
  have h: "FormSender_init ?f ''http://example.com/'' = Inr ?fs"
    by (simp add: FormSender_init_def find_all_def add_input_def)
  have "payload ?fs ''csrf'' = Some ''tok''" by simp
  with FormSender_payload_prefilled [OF h]
  have "\<exists>i \<in> set (find_all ''input'' ?f). prefilled i ''csrf'' ''tok''" by blast
  with h show ?thesis by blast
qed

section \<open>Properties of download\<close>

text \<open>
  Claim C4, as amended.  When the GET is answered with a status code that the table of
  descriptions lists, \<open>download\<close> raises \<open>HTTPError\<close> for every code other than 200, after
  logging an error record made of the code and its description, and for 200 it returns the
  content of the response.  The raised error itself carries no data.
\<close>

theorem download_status_check:
  assumes "get (case session of None \<Rightarrow> new_session | Some s \<Rightarrow> s) u = Inr resp"
      and "responses (status_code resp) = Some d"
  shows "download responses get new_session u session =
     (if status_code resp \<noteq> 200
      then (Inl HTTPError,
            [Log INFO ''status'' (''GET: '' @ u),
             Log ERROR ''error'' (str_of_nat (status_code resp) @ '' '' @ d)])
      else (Inr (content resp),
            [Log INFO ''status'' (''GET: '' @ u),
             Log INFO ''success'' (str_of_nat (status_code resp) @ '' '' @ d)]))"
  using assms by (cases "status_code resp = 200") (auto simp: download_def describe_status_code_def)

lemma str_of_nat_404: "str_of_nat 404 = ''404''"
  by (simp add: str_of_nat.simps char_of_eq_iff)

lemma str_of_nat_200: "str_of_nat 200 = ''200''"
  by (simp add: str_of_nat.simps char_of_eq_iff)

theorem download_status_check_witness:
  "download [200 \<mapsto> ''OK'', 404 \<mapsto> ''Not Found'']
      (\<lambda>s u. Inr \<lparr> status_code = 404, url = u, content = ''gone'', cookies = [] \<rparr>) () ''http://example.com/'' None
     = (Inl HTTPError,
        [Log INFO ''status'' ''GET: http://example.com/'', Log ERROR ''error'' ''404 Not Found''])
   \<and> download [200 \<mapsto> ''OK'', 404 \<mapsto> ''Not Found'']
      (\<lambda>s u. Inr \<lparr> status_code = 200, url = u, content = ''body'', cookies = [] \<rparr>) () ''http://example.com/'' None
     = (Inr ''body'',
        [Log INFO ''status'' ''GET: http://example.com/'', Log INFO ''success'' ''200 OK''])"
proof -
  let ?tbl = "[200 \<mapsto> ''OK'', 404 \<mapsto> ''Not Found''] :: nat \<rightharpoonup> string"
  let ?r1 = "\<lparr> status_code = 404, url = ''http://example.com/'', content = ''gone'', cookies = [] \<rparr>"
  let ?r2 = "\<lparr> status_code = 200, url = ''http://example.com/'', content = ''body'', cookies = [] \<rparr>"
  let ?g1 = "\<lambda>(s::unit) u. Inr \<lparr> status_code = 404, url = u, content = ''gone'', cookies = [] \<rparr> :: error + response"
  let ?g2 = "\<lambda>(s::unit) u. Inr \<lparr> status_code = 200, url = u, content = ''body'', cookies = [] \<rparr> :: error + response"
  show ?thesis
    using download_status_check [where get = ?g1 and session = None and new_session = "()"
            and u = "''http://example.com/''" and resp = ?r1 and responses = ?tbl
            and d = "''Not Found''"]
          download_status_check [where get = ?g2 and session = None and new_session = "()"
            and u = "''http://example.com/''" and resp = ?r2 and responses = ?tbl
            and d = "''OK''"]
    by (simp add: str_of_nat_404 str_of_nat_200)
qed

text \<open>
  The error raised for a 404 and the error raised for a 500 are the same value: neither the
  code nor the description can be read from it.
\<close>

theorem download_error_without_status_counterexample:
  "fst (download [404 \<mapsto> ''Not Found'', 500 \<mapsto> ''Internal Server Error'']
      (\<lambda>s u. Inr \<lparr> status_code = 404, url = u, content = [], cookies = [] \<rparr>) () ''http://example.com/'' None)
     = Inl HTTPError
   \<and> fst (download [404 \<mapsto> ''Not Found'', 500 \<mapsto> ''Internal Server Error'']
      (\<lambda>s u. Inr \<lparr> status_code = 500, url = u, content = [], cookies = [] \<rparr>) () ''http://example.com/'' None)
     = Inl HTTPError"
  by (simp add: download_def describe_status_code_def)

section \<open>Properties of the AtCoder recognisers\<close>

lemma str_count_append: "str_count c (xs @ ys) = str_count c xs + str_count c ys"
  by (simp add: str_count_def)

lemma endswith_append: "endswith s p \<Longrightarrow> s = take (length s - length p) s @ p"
  unfolding endswith_def by (metis append_take_drop_id)

lemma first_component_of_contest_host:
  assumes "str_count CHR ''.'' nl = 3" and "endswith nl ''.contest.atcoder.jp''"
  shows "nl = first_component nl @ ''.contest.atcoder.jp''"
proof -
  define pre where "pre = take (length nl - length ''.contest.atcoder.jp'') nl"
  have nl: "nl = pre @ ''.contest.atcoder.jp''"
    unfolding pre_def by (rule endswith_append [OF assms(2)])
  have "str_count CHR ''.'' ''.contest.atcoder.jp'' = 3" by (simp add: str_count_def)
  then have "str_count CHR ''.'' pre + 3 = 3"
    using assms(1) by (subst (asm) nl) (simp add: str_count_append)
  then have "filter (\<lambda>d. d = CHR ''.'') pre = []"
    by (simp add: str_count_def)
  then have nodot: "\<forall>c \<in> set pre. c \<noteq> CHR ''.''"
    by (simp add: filter_empty_conv)
  have "first_component (pre @ ''.contest.atcoder.jp'') = pre"
    unfolding first_component_def using nodot by (simp add: takeWhile_append2)
  then show ?thesis using nl by simp
qed

text \<open>
  Claim C10.  Whatever the library functions are: when the network location of the URL is
  exactly \<open>atcoder.jp\<close> or \<open>beta.atcoder.jp\<close>, \<open>AtCoderSubmission.from_url\<close> returns none,
  also for a path of the shape \<open>/contests/<id>/submissions/<number>\<close>, since the host
  test of the second branch compares a string with a tuple.  Every URL it recognises has
  the network location \<open><contest>.contest.atcoder.jp\<close>, with a non-empty contest
  identifier without dot, and a normalised path that splits into \<open>/submissions\<close> and a
  last part that \<open>int\<close> reads as the submission number.
\<close>

theorem AtCoderSubmission_from_url_legacy_only:
  "(urlparse lib s = Inr r \<and> (netloc r = ''atcoder.jp'' \<or> netloc r = ''beta.atcoder.jp'')
      \<longrightarrow> AtCoderSubmission_from_url lib s pid = Inr None)
   \<and> (AtCoderSubmission_from_url lib s pid = Inr (Some sub) \<longrightarrow>
        (\<exists>r. urlparse lib s = Inr r
           \<and> in_schemes (scheme r)
           \<and> netloc r = sub_contest_id sub @ ''.contest.atcoder.jp''
           \<and> sub_contest_id sub \<noteq> [] \<and> CHR ''.'' \<notin> set (sub_contest_id sub)
           \<and> fst (posixpath_split (normpath lib (path r))) = ''/submissions''
           \<and> int_of_str lib (snd (posixpath_split (normpath lib (path r)))) = Some (submission_id sub)
           \<and> sub_problem_id sub = pid))"
proof (intro conjI impI)
  assume a: "urlparse lib s = Inr r \<and> (netloc r = ''atcoder.jp'' \<or> netloc r = ''beta.atcoder.jp'')"
  then have "str_count CHR ''.'' (netloc r) \<noteq> 3" by (auto simp: str_count_def)
  then show "AtCoderSubmission_from_url lib s pid = Inr None"
    using a by (simp add: AtCoderSubmission_from_url_def str_eq_tuple_def split_beta
        split: option.splits)
next
  assume a: "AtCoderSubmission_from_url lib s pid = Inr (Some sub)"
  then obtain r where r: "urlparse lib s = Inr r"
    by (cases "urlparse lib s") (auto simp: AtCoderSubmission_from_url_def)
  let ?sp = "posixpath_split (normpath lib (path r))"
  from a r have c: "in_schemes (scheme r)" "str_count CHR ''.'' (netloc r) = 3"
      "endswith (netloc r) ''.contest.atcoder.jp''" "first_component (netloc r) \<noteq> []"
      "fst ?sp = ''/submissions''"
      "int_of_str lib (snd ?sp) = Some (submission_id sub)"
      "sub_contest_id sub = first_component (netloc r)" "sub_problem_id sub = pid"
    by (auto simp: AtCoderSubmission_from_url_def str_eq_tuple_def split_beta Let_def
        split: option.splits if_splits)
  have "netloc r = sub_contest_id sub @ ''.contest.atcoder.jp''"
    using first_component_of_contest_host [OF c(2) c(3)] c(7) by simp
  moreover have "CHR ''.'' \<notin> set (sub_contest_id sub)"
    unfolding c(7) first_component_def by (auto dest: set_takeWhileD)
  ultimately show "\<exists>r. urlparse lib s = Inr r
           \<and> in_schemes (scheme r)
           \<and> netloc r = sub_contest_id sub @ ''.contest.atcoder.jp''
           \<and> sub_contest_id sub \<noteq> [] \<and> CHR ''.'' \<notin> set (sub_contest_id sub)
           \<and> fst (posixpath_split (normpath lib (path r))) = ''/submissions''
           \<and> int_of_str lib (snd (posixpath_split (normpath lib (path r)))) = Some (submission_id sub)
           \<and> sub_problem_id sub = pid"
    using r c by auto
qed

lemma parse_beta_submission:
  "urlparse stdlib ''https://beta.atcoder.jp/contests/abc073/submissions/1592381'' =
     Inr \<lparr> scheme = ''https'', netloc = ''beta.atcoder.jp'',
           path = ''/contests/abc073/submissions/1592381'', params = [], query = [],
           fragment = [], hostname = Some ''beta.atcoder.jp'' \<rparr>"
  by code_simp

lemma std_int_1246803: "std_int ''1246803'' = Some 1246803"
  by (simp add: std_int_def str_strip_def is_space_def valid_digits_def is_digit_def
      nat_of_digits_def digit_val_def startswith_def)

lemma parse_legacy_submission:
  "urlparse stdlib ''http://agc001.contest.atcoder.jp/submissions/1246803'' =
     Inr \<lparr> scheme = ''http'', netloc = ''agc001.contest.atcoder.jp'',
           path = ''/submissions/1246803'', params = [], query = [],
           fragment = [], hostname = Some ''agc001.contest.atcoder.jp'' \<rparr>"
  by code_simp

lemma legacy_submission_recognised:
  "AtCoderSubmission_from_url stdlib ''http://agc001.contest.atcoder.jp/submissions/1246803'' None =
     Inr (Some \<lparr> sub_contest_id = ''agc001'', submission_id = 1246803, sub_problem_id = None \<rparr>)"
proof -
  have n: "normpath stdlib ''/submissions/1246803'' = ''/submissions/1246803''" by code_simp
  have s: "posixpath_split ''/submissions/1246803'' = (''/submissions'', ''1246803'')" by code_simp
  have i: "int_of_str stdlib ''1246803'' = Some 1246803"
    using std_int_1246803 by (simp add: stdlib_def)
  have c: "str_count CHR ''.'' ''agc001.contest.atcoder.jp'' = 3" by code_simp
  have e: "endswith ''agc001.contest.atcoder.jp'' ''.contest.atcoder.jp''" by code_simp
  have f: "first_component ''agc001.contest.atcoder.jp'' = ''agc001''" by code_simp
  show ?thesis
    by (simp add: AtCoderSubmission_from_url_def parse_legacy_submission n s i c e f in_schemes_def)
qed

theorem AtCoderSubmission_from_url_legacy_only_witness:
  "AtCoderSubmission_from_url stdlib
      ''https://beta.atcoder.jp/contests/abc073/submissions/1592381'' None = Inr None
   \<and> match_contests ''/submissions/'' is_digit ''/contests/abc073/submissions/1592381''
       = Some (''abc073'', ''1592381'')
   \<and> AtCoderSubmission_from_url stdlib
      ''http://agc001.contest.atcoder.jp/submissions/1246803'' None =
     Inr (Some \<lparr> sub_contest_id = ''agc001'', submission_id = 1246803, sub_problem_id = None \<rparr>)
   \<and> urlparse stdlib ''http://agc001.contest.atcoder.jp/submissions/1246803'' =
     Inr \<lparr> scheme = ''http'', netloc = ''agc001.contest.atcoder.jp'',
           path = ''/submissions/1246803'', params = [], query = [],
           fragment = [], hostname = Some ''agc001.contest.atcoder.jp'' \<rparr>"
proof -
  have m: "match_contests ''/submissions/'' is_digit ''/contests/abc073/submissions/1592381''
       = Some (''abc073'', ''1592381'')" by code_simp
  show ?thesis
    using AtCoderSubmission_from_url_legacy_only [of stdlib
        "''https://beta.atcoder.jp/contests/abc073/submissions/1592381''"
        "\<lparr> scheme = ''https'', netloc = ''beta.atcoder.jp'',
           path = ''/contests/abc073/submissions/1592381'', params = [], query = [],
           fragment = [], hostname = Some ''beta.atcoder.jp'' \<rparr>" None, THEN conjunct1]
      parse_beta_submission legacy_submission_recognised m parse_legacy_submission
    by simp
qed

end
